theory Spec2Isabelle
  imports Main
begin

section \<open>The Bokeh server Tornado application (bokeh/server/tornado.py)\<close>

text \<open>
  A shallow embedding of class \<open>BokehTornado\<close>. Every method becomes a function
  from the object's state (and its arguments) to a result and the new state. An
  attribute \<open>self._x\<close> of the source is the record field \<open>self_x\<close>; what the
  methods do to the world outside the object (the module logger, standard output,
  ping frames put on the wire, the thread's current event loop, the interpreter's
  exit and signal handlers) is kept in fields named \<open>env_...\<close> of the same
  record, so that a raise that follows a log call keeps the log line.
\<close>

subsection \<open>Values and errors\<close>

text \<open>The exceptions the module raises, or lets through from a collaborator.\<close>

datatype error =
    HTTPError nat string
  | ValueError string
  | RuntimeError string
  | AttributeError string
  | WebSocketClosedError

datatype level = DEBUG | ERROR

text \<open>
  A route pattern: the route, the handler's name, and for the per-application routes
  the keyword dictionary, which holds the key of the application context and the
  websocket path of that application.
\<close>

record route_kwargs =
  application_context :: string
  bokeh_websocket_path :: string

type_synonym pattern = "string \<times> string \<times> route_kwargs option"

text \<open>
  A call of the module logger: the level, the format string and the arguments that
  were handed over unformatted.
\<close>

datatype log_arg = ArgInt int | ArgPatterns "pattern list"

type_synonym log_record = "level \<times> string \<times> log_arg list"

text \<open>The two attributes of a Tornado request that the module reads.\<close>

record request =
  host :: string
  protocol :: string

text \<open>
  \<open>bokeh.resources.Resources\<close> is constructed with a mode and a root URL. An object
  has an identity besides its fields: \<open>res_id\<close> is the number of objects allocated
  before it.
\<close>

record resources_obj =
  res_id :: nat
  res_mode :: string
  res_root_url :: string

text \<open>\<open>tornado.ioloop.PeriodicCallback\<close>: what is called, its period in milliseconds, and
  whether it is running.\<close>

datatype job_action = LogStats | CleanupSessions | KeepAlive

record periodic_callback =
  callback :: job_action
  callback_time :: int
  running :: bool

definition PeriodicCallback :: "job_action \<Rightarrow> int \<Rightarrow> periodic_callback" where
  "PeriodicCallback f t = \<lparr>callback = f, callback_time = t, running = False\<rparr>"

definition job_start :: "periodic_callback \<Rightarrow> periodic_callback" where
  "job_start j = j\<lparr>running := True\<rparr>"

definition job_stop :: "periodic_callback \<Rightarrow> periodic_callback" where
  "job_stop j = j\<lparr>running := False\<rparr>"

text \<open>The event loop: the callbacks scheduled on it and whether it runs.\<close>

datatype loop_callback = StartAsync

record io_loop =
  loop_callbacks :: "loop_callback list"
  loop_running :: bool

text \<open>\<open>concurrent.futures.ProcessPoolExecutor\<close>: the size of the pool, whether it has
  been shut down, and how often \<open>shutdown\<close> was called.\<close>

record executor =
  max_workers :: nat
  is_shutdown :: bool
  shutdown_calls :: nat

definition ProcessPoolExecutor :: "nat \<Rightarrow> executor" where
  "ProcessPoolExecutor n = \<lparr>max_workers = n, is_shutdown = False, shutdown_calls = 0\<rparr>"

definition executor_shutdown :: "executor \<Rightarrow> executor" where
  "executor_shutdown e = e\<lparr>is_shutdown := True, shutdown_calls := Suc (shutdown_calls e)\<rparr>"

subsection \<open>Collaborators that are not part of the module\<close>

text \<open>
  Modelled from the spec: \<open>ServerConnection\<close> (module \<open>connection\<close>) is missing. A
  connection is one live client socket bound to one session of one application; it
  holds the identity of its session (application path and session id), not the
  session. The transport can send a ping frame, and the send can fail. \<open>conn_id\<close> is
  the identity of the object.
\<close>

record connection =
  conn_id :: nat
  conn_protocol :: string
  socket_open :: bool
  conn_application_context :: string
  conn_session :: string

text \<open>
  Modelled from the spec: a session (module \<open>session\<close> is missing) has an id, a
  last-active time, the connections attached to it, and may have expired.
\<close>

record session =
  session_id :: string
  last_active :: nat
  attached :: "nat list"
  expired :: bool

text \<open>
  Modelled from the spec: \<open>ApplicationContext\<close> (module \<open>application_context\<close>) is
  missing. It wraps the application and owns the directory of its sessions.
\<close>

record application_context =
  application :: string
  sessions :: "string \<rightharpoonup> session"

definition ApplicationContext :: "string \<Rightarrow> application_context" where
  "ApplicationContext v = \<lparr>application = v, sessions = Map.empty\<rparr>"

text \<open>
  Modelled from the spec: \<open>ApplicationContext.get_session\<close> is missing. It returns the
  existing session if it is present and not expired; otherwise it constructs a new
  one, records its last-active time and stores it.
\<close>

definition ctx_get_session ::
  "nat \<Rightarrow> application_context \<Rightarrow> string \<Rightarrow> session \<times> application_context" where
  "ctx_get_session now ctx sid =
     (let fresh = \<lparr>session_id = sid, last_active = now, attached = [], expired = False\<rparr>;
          created = (fresh, ctx\<lparr>sessions := (sessions ctx)(sid \<mapsto> fresh)\<rparr>)
      in case sessions ctx sid of
           None \<Rightarrow> created
         | Some x \<Rightarrow> if expired x then created else (x, ctx))"

text \<open>
  Modelled from the spec: \<open>ApplicationContext.cleanup_sessions\<close> is missing. It removes
  every session with no attached connection whose idle time exceeds the threshold.
\<close>

definition ctx_cleanup_sessions ::
  "nat \<Rightarrow> nat \<Rightarrow> application_context \<Rightarrow> application_context" where
  "ctx_cleanup_sessions now linger ctx =
     ctx\<lparr>sessions := (\<lambda>sid.
        case sessions ctx sid of
          None \<Rightarrow> None
        | Some x \<Rightarrow> if attached x = [] \<and> linger < now - last_active x then None else Some x)\<rparr>"

text \<open>
  Modelled from the spec: attaching a connection to its session and detaching it. The
  session is found through the identity the connection holds; detaching a connection
  that is not attached, or whose session is gone, changes nothing.
\<close>

definition ctx_attach :: "nat \<Rightarrow> string \<Rightarrow> application_context \<Rightarrow> application_context" where
  "ctx_attach cid sid ctx =
     (case sessions ctx sid of
        None \<Rightarrow> ctx
      | Some x \<Rightarrow>
          ctx\<lparr>sessions := (sessions ctx)(sid \<mapsto>
            x\<lparr>attached := (if cid \<in> set (attached x) then attached x else attached x @ [cid])\<rparr>)\<rparr>)"

definition ctx_detach :: "nat \<Rightarrow> string \<Rightarrow> application_context \<Rightarrow> application_context" where
  "ctx_detach cid sid ctx =
     (case sessions ctx sid of
        None \<Rightarrow> ctx
      | Some x \<Rightarrow>
          ctx\<lparr>sessions := (sessions ctx)(sid \<mapsto> x\<lparr>attached := removeAll cid (attached x)\<rparr>)\<rparr>)"

text \<open>
  Modelled from the spec: \<open>ServerConnection.send_ping\<close> is missing. Sending on a closed
  socket fails; otherwise one ping frame goes out.
\<close>

definition send_ping :: "connection \<Rightarrow> error + unit" where
  "send_ping c = (if socket_open c then Inr () else Inl WebSocketClosedError)"

subsection \<open>The state of a \<open>BokehTornado\<close> object\<close>

text \<open>
  Which loop is the thread's current one: the one that was current when the object
  was constructed, none, or the fresh one that \<open>_atexit\<close> creates.
\<close>

datatype current_loop = InitialLoop | NoLoop | ShutdownLoop

record server =
  self_loop :: io_loop
  self_hosts :: "string list"
  self_resources :: "string \<rightharpoonup> resources_obj"
  self_applications :: "string \<rightharpoonup> application_context"
  self_patterns :: "pattern list"
  self_settings :: "(string \<times> string) list"
  self_clients :: "connection list"
  self_executor :: executor
  self_stats_job :: periodic_callback
  self_unused_session_linger_seconds :: nat
  self_cleanup_job :: periodic_callback
  self_ping_job :: "periodic_callback option"
  self_atexit_ran :: bool
  env_log :: "log_record list"
  env_stdout :: "string list"
  env_pings :: "nat list"
  env_current_loop :: current_loop
  env_atexit_registered :: bool
  env_sigterm_installed :: bool
  env_pid :: nat
  env_clock :: nat
  env_allocated :: nat

subsection \<open>Host validation and URL derivation\<close>

definition whitelist_message :: "string \<Rightarrow> string" where
  "whitelist_message h =
     ''Request with Host: '' @ [CHR 0x27] @ h @ [CHR 0x27] @
     '' not in the host whitelist, if this is a valid host for your web server add a --host option to bokeh serve''"

definition check_host_whitelist :: "server \<Rightarrow> request \<Rightarrow> (error + unit) \<times> server" where
  "check_host_whitelist s r =
     (if host r \<notin> set (self_hosts s)
      then (Inl (HTTPError 403 ''request host not in whitelist''),
            s\<lparr>env_log := env_log s @ [(ERROR, whitelist_message (host r), [])]\<rparr>)
      else (Inr (), s))"

definition root_url_for_request :: "server \<Rightarrow> request \<Rightarrow> (error + string) \<times> server" where
  "root_url_for_request s r =
     (case check_host_whitelist s r of
        (Inl e, s') \<Rightarrow> (Inl e, s')
      | (Inr _, s') \<Rightarrow> (Inr (protocol r @ ''://'' @ host r @ ''/''), s'))"

definition websocket_url_for_request ::
  "server \<Rightarrow> request \<Rightarrow> string \<Rightarrow> (error + string) \<times> server" where
  "websocket_url_for_request s r websocket_path =
     (case check_host_whitelist s r of
        (Inl e, s') \<Rightarrow> (Inl e, s')
      | (Inr _, s') \<Rightarrow>
          (Inr ((if protocol r = ''https'' then ''wss'' else ''ws'') @ ''://'' @ host r @
                websocket_path), s'))"

definition Resources :: "nat \<Rightarrow> string \<Rightarrow> string \<Rightarrow> resources_obj" where
  "Resources i m u = \<lparr>res_id = i, res_mode = m, res_root_url = u\<rparr>"

definition resources :: "server \<Rightarrow> request \<Rightarrow> (error + resources_obj) \<times> server" where
  "resources s r =
     (case root_url_for_request s r of
        (Inl e, s') \<Rightarrow> (Inl e, s')
      | (Inr root_url, s') \<Rightarrow>
          (case self_resources s' root_url of
             Some d \<Rightarrow> (Inr d, s')
           | None \<Rightarrow>
               (let d = Resources (env_allocated s') ''server'' root_url
                in (Inr d, s'\<lparr>self_resources := (self_resources s')(root_url \<mapsto> d),
                               env_allocated := Suc (env_allocated s')\<rparr>))))"

subsection \<open>Starting and stopping\<close>

text \<open>
  \<open>start\<close> starts the jobs and enters the loop; \<open>interrupted\<close> says whether the loop
  ended with a keyboard interrupt, which the method catches and reports.
\<close>

definition start :: "server \<Rightarrow> bool \<Rightarrow> server" where
  "start s interrupted =
     (let s1 = s\<lparr>self_stats_job := job_start (self_stats_job s),
                  self_cleanup_job := job_start (self_cleanup_job s),
                  self_ping_job := map_option job_start (self_ping_job s)\<rparr>
      in if interrupted
         then s1\<lparr>self_loop := (self_loop s)\<lparr>loop_running := False\<rparr>,
                 env_stdout := env_stdout s @ [CHR 0x0A # ''Interrupted, shutting down'']\<rparr>
         else s1\<lparr>self_loop := (self_loop s)\<lparr>loop_running := True\<rparr>\<rparr>)"

definition stop :: "server \<Rightarrow> server" where
  "stop s =
     s\<lparr>self_stats_job := job_stop (self_stats_job s),
       self_cleanup_job := job_stop (self_cleanup_job s),
       self_ping_job := map_option job_stop (self_ping_job s),
       self_loop := (self_loop s)\<lparr>loop_running := False\<rparr>\<rparr>"

subsection \<open>Connections and sessions\<close>

text \<open>The set \<open>self._clients\<close>, in its iteration order; an element is an object, so
  membership goes by identity.\<close>

definition set_add :: "connection \<Rightarrow> connection list \<Rightarrow> connection list" where
  "set_add c cs = (if conn_id c \<in> conn_id ` set cs then cs else cs @ [c])"

definition set_discard :: "connection \<Rightarrow> connection list \<Rightarrow> connection list" where
  "set_discard c cs = filter (\<lambda>x. conn_id x \<noteq> conn_id c) cs"

text \<open>
  Modelled from the spec: the constructor of \<open>ServerConnection\<close> and its
  \<open>detach_session\<close> are missing. A new connection is attached to its session;
  detaching removes it from the session's connections.
\<close>

definition attach_session ::
  "connection \<Rightarrow> (string \<rightharpoonup> application_context) \<Rightarrow> (string \<rightharpoonup> application_context)" where
  "attach_session c apps =
     (case apps (conn_application_context c) of
        None \<Rightarrow> apps
      | Some ctx \<Rightarrow>
          apps(conn_application_context c \<mapsto> ctx_attach (conn_id c) (conn_session c) ctx))"

definition detach_session ::
  "connection \<Rightarrow> (string \<rightharpoonup> application_context) \<Rightarrow> (string \<rightharpoonup> application_context)" where
  "detach_session c apps =
     (case apps (conn_application_context c) of
        None \<Rightarrow> apps
      | Some ctx \<Rightarrow>
          apps(conn_application_context c \<mapsto> ctx_detach (conn_id c) (conn_session c) ctx))"

definition new_connection ::
  "server \<Rightarrow> string \<Rightarrow> bool \<Rightarrow> string \<Rightarrow> string \<Rightarrow> connection \<times> server" where
  "new_connection s proto socket app_context sess =
     (let c = \<lparr>conn_id = env_allocated s, conn_protocol = proto, socket_open = socket,
               conn_application_context = app_context, conn_session = sess\<rparr>
      in (c, s\<lparr>self_clients := set_add c (self_clients s),
                self_applications := attach_session c (self_applications s),
                env_allocated := Suc (env_allocated s)\<rparr>))"

definition client_lost :: "server \<Rightarrow> connection \<Rightarrow> server" where
  "client_lost s c =
     s\<lparr>self_clients := set_discard c (self_clients s),
       self_applications := detach_session c (self_applications s)\<rparr>"

definition get_session :: "server \<Rightarrow> string \<Rightarrow> string \<Rightarrow> (error + session) \<times> server" where
  "get_session s app_path sid =
     (case self_applications s app_path of
        None \<Rightarrow> (Inl (ValueError (''Application '' @ app_path @ '' does not exist on this server'')), s)
      | Some ctx \<Rightarrow>
          (case ctx_get_session (env_clock s) ctx sid of
             (x, ctx') \<Rightarrow> (Inr x, s\<lparr>self_applications := (self_applications s)(app_path \<mapsto> ctx')\<rparr>)))"

subsection \<open>The periodic jobs\<close>

definition cleanup_sessions :: "server \<Rightarrow> server" where
  "cleanup_sessions s =
     s\<lparr>self_applications := (\<lambda>k.
        map_option (ctx_cleanup_sessions (env_clock s) (self_unused_session_linger_seconds s))
          (self_applications s k))\<rparr>"

definition log_stats :: "server \<Rightarrow> server" where
  "log_stats s =
     s\<lparr>env_log := env_log s @
        [(DEBUG, ''[pid %d] %d clients connected'',
          [ArgInt (int (env_pid s)), ArgInt (int (length (self_clients s)))])]\<rparr>"

text \<open>
  The loop of \<open>keep_alive\<close> over the connections: \<open>ps\<close> are the ping frames sent so
  far. An exception of \<open>send_ping\<close> is not caught, so it ends the loop.
\<close>

fun ping_each :: "connection list \<Rightarrow> nat list \<Rightarrow> (error + unit) \<times> nat list" where
  "ping_each [] ps = (Inr (), ps)"
| "ping_each (c # cs) ps =
     (case send_ping c of
        Inl e \<Rightarrow> (Inl e, ps)
      | Inr _ \<Rightarrow> ping_each cs (ps @ [conn_id c]))"

definition keep_alive :: "server \<Rightarrow> (error + unit) \<times> server" where
  "keep_alive s =
     (case ping_each (self_clients s) (env_pings s) of
        (res, ps) \<Rightarrow> (res, s\<lparr>env_pings := ps\<rparr>))"

subsection \<open>Shutdown\<close>

text \<open>
  \<open>_start_async\<close> registers the exit handler and installs the signal handler.
  \<open>signal.signal\<close> raises outside the main thread; the handler of that exception
  calls \<open>self.exit\<close>, which the class does not have.
\<close>

definition start_async :: "server \<Rightarrow> bool \<Rightarrow> (error + unit) \<times> server" where
  "start_async s main_thread =
     (if main_thread
      then (Inr (), s\<lparr>env_atexit_registered := True, env_sigterm_installed := True\<rparr>)
      else (Inl (AttributeError ''exit''), s\<lparr>env_atexit_registered := True\<rparr>))"

definition cleanup :: "server \<Rightarrow> server" where
  "cleanup s =
     s\<lparr>env_log := env_log s @ [(DEBUG, ''Shutdown: cleaning up'', [])],
       self_executor := executor_shutdown (self_executor s),
       self_clients := []\<rparr>"

text \<open>
  \<open>_atexit\<close>: the flag \<open>_atexit_ran\<close> lets the body run once. The body stops the
  stats job, makes a fresh loop the current one and runs \<open>_cleanup\<close> on it to the end.
\<close>

definition atexit :: "server \<Rightarrow> server" where
  "atexit s =
     (if self_atexit_ran s then s
      else cleanup (s\<lparr>self_atexit_ran := True,
                      self_stats_job := job_stop (self_stats_job s),
                      env_current_loop := ShutdownLoop\<rparr>))"

definition sigterm :: "server \<Rightarrow> server" where
  "sigterm s =
     atexit (stop (s\<lparr>env_stdout := env_stdout s @ [''Received SIGTERM, shutting down'']\<rparr>))"

subsection \<open>Construction\<close>

text \<open>
  What \<open>__init__\<close> takes from the modules it imports, which are not part of this
  module: the route tables of \<open>urls\<close>, the settings, and the process id.
\<close>

record environment =
  per_app_patterns :: "(string \<times> string) list"
  toplevel_patterns :: "pattern list"
  settings :: "(string \<times> string) list"
  getpid :: nat
  clock :: nat
  IOLoop_current :: io_loop

definition endswith :: "string \<Rightarrow> string \<Rightarrow> bool" where
  "endswith s suf = (length suf \<le> length s \<and> drop (length s - length suf) s = suf)"

text \<open>The routes of one application: \<open>"/"\<close> takes the templates as they are, any other
  key is put in front of each.\<close>

definition app_routes :: "(string \<times> string) list \<Rightarrow> string \<Rightarrow> (string \<times> string) list" where
  "app_routes pats key = map (\<lambda>p. (if key = ''/'' then fst p else key @ fst p, snd p)) pats"

text \<open>The loop that looks for the websocket route keeps the last route that ends in
  \<open>/ws\<close>.\<close>

definition find_websocket_path :: "(string \<times> string) list \<Rightarrow> string option" where
  "find_websocket_path rs =
     foldl (\<lambda>w r. if endswith (fst r) ''/ws'' then Some (fst r) else w) None rs"

fun relative_patterns :: "(string \<times> string) list \<Rightarrow> string list \<Rightarrow> error + pattern list" where
  "relative_patterns pats [] = Inr []"
| "relative_patterns pats (key # keys) =
     (case find_websocket_path (app_routes pats key) of
        None \<Rightarrow> Inl (RuntimeError ''Couldn't find websocket path'')
      | Some w \<Rightarrow>
          (case relative_patterns pats keys of
             Inl e \<Rightarrow> Inl e
           | Inr rest \<Rightarrow>
               Inr (map (\<lambda>r. (fst r, snd r,
                                Some \<lparr>application_context = key, bokeh_websocket_path = w\<rparr>))
                      (app_routes pats key) @ rest)))"

text \<open>
  \<open>applications\<close> is the dictionary's items in iteration order, \<open>io_loop\<close> and
  \<open>extra_patterns\<close> are \<open>None\<close> when left out.
\<close>

definition init ::
  "environment \<Rightarrow> (string \<times> string) list \<Rightarrow> string list \<Rightarrow> io_loop option \<Rightarrow>
   pattern list option \<Rightarrow> int \<Rightarrow> error + server" where
  "init env applications hosts io_loop extra_patterns keep_alive_milliseconds =
     (let loop = (case io_loop of None \<Rightarrow> IOLoop_current env | Some l \<Rightarrow> l)
      in if keep_alive_milliseconds < 0
         then Inl (ValueError ''keep_alive_milliseconds must be >= 0'')
         else
           (case relative_patterns (per_app_patterns env) (map fst applications) of
              Inl e \<Rightarrow> Inl e
            | Inr rel \<Rightarrow>
                (let all_patterns =
                       (case extra_patterns of None \<Rightarrow> [] | Some ps \<Rightarrow> ps) @ rel @
                       toplevel_patterns env
                 in Inr \<lparr>self_loop = loop\<lparr>loop_callbacks := loop_callbacks loop @ [StartAsync]\<rparr>,
                         self_hosts = hosts,
                         self_resources = Map.empty,
                         self_applications =
                           foldl (\<lambda>m kv. m(fst kv \<mapsto> ApplicationContext (snd kv))) Map.empty
                             applications,
                         self_patterns = all_patterns,
                         self_settings = settings env,
                         self_clients = [],
                         self_executor = ProcessPoolExecutor 4,
                         self_stats_job = PeriodicCallback LogStats 15000,
                         self_unused_session_linger_seconds = 60 * 30,
                         self_cleanup_job = PeriodicCallback CleanupSessions 17000,
                         self_ping_job =
                           (if keep_alive_milliseconds > 0
                            then Some (PeriodicCallback KeepAlive keep_alive_milliseconds)
                            else None),
                         self_atexit_ran = False,
                         env_log = [(DEBUG, ''Patterns are: %r'', [ArgPatterns all_patterns])],
                         env_stdout = [],
                         env_pings = [],
                         env_current_loop = InitialLoop,
                         env_atexit_registered = False,
                         env_sigterm_installed = False,
                         env_pid = getpid env,
                         env_clock = clock env,
                         env_allocated = 0\<rparr>)))"

subsection \<open>Calls from outside\<close>

text \<open>Every method of the object as one call, for statements about all of them.\<close>

datatype call =
    RootUrlForRequest request
  | WebsocketUrlForRequest request string
  | ResourcesFor request
  | Start bool
  | Stop
  | NewConnection string bool string string
  | ClientLost connection
  | GetSession string string
  | CleanupSessionsJob
  | LogStatsJob
  | KeepAliveJob
  | StartAsyncCallback bool
  | Atexit
  | Sigterm
  | Tick nat
  | SocketClosed nat

text \<open>
  The last two are not methods: \<open>Tick\<close> is the clock moving on, \<open>SocketClosed\<close> is the
  transport losing the socket of a connection before the server is told.
\<close>

fun exec :: "server \<Rightarrow> call \<Rightarrow> server" where
  "exec s (RootUrlForRequest r) = snd (root_url_for_request s r)"
| "exec s (WebsocketUrlForRequest r p) = snd (websocket_url_for_request s r p)"
| "exec s (ResourcesFor r) = snd (resources s r)"
| "exec s (Start i) = start s i"
| "exec s Stop = stop s"
| "exec s (NewConnection p sock a x) = snd (new_connection s p sock a x)"
| "exec s (ClientLost c) = client_lost s c"
| "exec s (GetSession a x) = snd (get_session s a x)"
| "exec s CleanupSessionsJob = cleanup_sessions s"
| "exec s LogStatsJob = log_stats s"
| "exec s KeepAliveJob = snd (keep_alive s)"
| "exec s (StartAsyncCallback m) = snd (start_async s m)"
| "exec s Atexit = atexit s"
| "exec s Sigterm = sigterm s"
| "exec s (Tick n) = s\<lparr>env_clock := env_clock s + n\<rparr>"
| "exec s (SocketClosed i) =
     s\<lparr>self_clients :=
         map (\<lambda>c. if conn_id c = i then c\<lparr>socket_open := False\<rparr> else c) (self_clients s)\<rparr>"

definition run :: "server \<Rightarrow> call list \<Rightarrow> server" where
  "run s cs = foldl exec s cs"

subsection \<open>A server to evaluate on\<close>

text \<open>
  One application at \<open>/app\<close> with a document route and a websocket route, and
  \<open>good.example\<close> as the only host of the whitelist. \<open>demo_server k\<close> is the object
  that the constructor returns for the keep-alive interval \<open>k\<close>.
\<close>

definition demo_env :: environment where
  "demo_env = \<lparr>per_app_patterns = [(''/?'', ''DocHandler''), (''/ws'', ''WSHandler'')],
               toplevel_patterns = [(''/static/(.*)'', ''StaticHandler'', None)],
               settings = [],
               getpid = 4242,
               clock = 0,
               IOLoop_current = \<lparr>loop_callbacks = [], loop_running = False\<rparr>\<rparr>"

definition demo_patterns :: "pattern list" where
  "demo_patterns =
     [(''/app/?'', ''DocHandler'',
       Some \<lparr>application_context = ''/app'', bokeh_websocket_path = ''/app/ws''\<rparr>),
      (''/app/ws'', ''WSHandler'',
       Some \<lparr>application_context = ''/app'', bokeh_websocket_path = ''/app/ws''\<rparr>),
      (''/static/(.*)'', ''StaticHandler'', None)]"

definition demo_server :: "int \<Rightarrow> server" where
  "demo_server k =
     \<lparr>self_loop = \<lparr>loop_callbacks = [StartAsync], loop_running = False\<rparr>,
      self_hosts = [''good.example''],
      self_resources = Map.empty,
      self_applications = [''/app'' \<mapsto> ApplicationContext ''app''],
      self_patterns = demo_patterns,
      self_settings = [],
      self_clients = [],
      self_executor = ProcessPoolExecutor 4,
      self_stats_job = PeriodicCallback LogStats 15000,
      self_unused_session_linger_seconds = 1800,
      self_cleanup_job = PeriodicCallback CleanupSessions 17000,
      self_ping_job = (if k > 0 then Some (PeriodicCallback KeepAlive k) else None),
      self_atexit_ran = False,
      env_log = [(DEBUG, ''Patterns are: %r'', [ArgPatterns demo_patterns])],
      env_stdout = [],
      env_pings = [],
      env_current_loop = InitialLoop,
      env_atexit_registered = False,
      env_sigterm_installed = False,
      env_pid = 4242,
      env_clock = 0,
      env_allocated = 0\<rparr>"

definition evil_request :: request where
  "evil_request = \<lparr>host = ''evil.example'', protocol = ''http''\<rparr>"

definition good_request :: "string \<Rightarrow> request" where
  "good_request p = \<lparr>host = ''good.example'', protocol = p\<rparr>"


text \<open>
  The server after a client asked for session \<open>s1\<close> of \<open>/app\<close> and connected to it;
  \<open>demo_conn\<close> is that connection, \<open>other_conn\<close> a connection the server never saw.
\<close>

definition demo_conn :: connection where
  "demo_conn = \<lparr>conn_id = 0, conn_protocol = ''1.0'', socket_open = True,
                 conn_application_context = ''/app'', conn_session = ''s1''\<rparr>"


definition demo_connected :: server where
  "demo_connected =
     run (demo_server 37000) [GetSession ''/app'' ''s1'', NewConnection ''1.0'' True ''/app'' ''s1'']"


text \<open>
  A server whose application holds a session that has expired, with the connections it
  once had still on it, at a later time of the clock.
\<close>

definition stale_session :: session where
  "stale_session = \<lparr>session_id = ''s1'', last_active = 3, attached = [5, 6], expired = True\<rparr>"

definition demo_expired :: server where
  "demo_expired =
     (demo_server 0)\<lparr>self_applications :=
        [''/app'' \<mapsto> \<lparr>application = ''app'', sessions = [''s1'' \<mapsto> stale_session]\<rparr>],
        env_clock := 100\<rparr>"

section \<open>Properties\<close>

subsection \<open>Basic facts\<close>

lemma init_demo:
  "0 \<le> k \<Longrightarrow>
   init demo_env [(''/app'', ''app'')] [''good.example''] None None k = Inr (demo_server k)"
  by (simp add: init_def demo_env_def demo_server_def demo_patterns_def app_routes_def
      find_websocket_path_def endswith_def Let_def)

lemma check_fail:
  "host r \<notin> set (self_hosts s) \<Longrightarrow>
   check_host_whitelist s r =
     (Inl (HTTPError 403 ''request host not in whitelist''),
      s\<lparr>env_log := env_log s @ [(ERROR, whitelist_message (host r), [])]\<rparr>)"
  by (simp add: check_host_whitelist_def)

lemma check_ok:
  "host r \<in> set (self_hosts s) \<Longrightarrow> check_host_whitelist s r = (Inr (), s)"
  by (simp add: check_host_whitelist_def)

subsection \<open>Host validation\<close>

text \<open>
  C1. A request whose host is not in the whitelist: \<open>root_url_for_request\<close>,
  \<open>websocket_url_for_request\<close> and \<open>resources\<close> each raise \<open>HTTPError\<close> 403. The state
  after the call is the state before it with one more line in the log, at level
  \<open>ERROR\<close>, whose text contains the host; so the sessions, the connections and the
  resource cache are as they were.
\<close>

theorem forbidden_host:
  assumes "host r \<notin> set (self_hosts s)"
  shows "root_url_for_request s r =
           (Inl (HTTPError 403 ''request host not in whitelist''),
            s\<lparr>env_log := env_log s @ [(ERROR, whitelist_message (host r), [])]\<rparr>) \<and>
         websocket_url_for_request s r websocket_path =
           (Inl (HTTPError 403 ''request host not in whitelist''),
            s\<lparr>env_log := env_log s @ [(ERROR, whitelist_message (host r), [])]\<rparr>) \<and>
         resources s r =
           (Inl (HTTPError 403 ''request host not in whitelist''),
            s\<lparr>env_log := env_log s @ [(ERROR, whitelist_message (host r), [])]\<rparr>) \<and>
         (\<exists>pre post. whitelist_message (host r) = pre @ host r @ post)"
proof -
  have "\<exists>pre post. whitelist_message (host r) = pre @ host r @ post"
    unfolding whitelist_message_def by (metis append.assoc)
  then show ?thesis
    using assms
    by (simp add: root_url_for_request_def websocket_url_for_request_def resources_def check_fail)
qed

theorem forbidden_host_witness:
  "host evil_request \<notin> set (self_hosts (demo_server 37000)) \<and>
   fst (root_url_for_request (demo_server 37000) evil_request) =
     Inl (HTTPError 403 ''request host not in whitelist'') \<and>
   fst (websocket_url_for_request (demo_server 37000) evil_request ''/app/ws'') =
     Inl (HTTPError 403 ''request host not in whitelist'') \<and>
   fst (resources (demo_server 37000) evil_request) =
     Inl (HTTPError 403 ''request host not in whitelist'') \<and>
   self_resources (snd (resources (demo_server 37000) evil_request)) = Map.empty \<and>
   self_clients (snd (resources (demo_server 37000) evil_request)) = [] \<and>
   self_applications (snd (resources (demo_server 37000) evil_request)) =
     self_applications (demo_server 37000) \<and>
   fst (last (env_log (snd (resources (demo_server 37000) evil_request)))) = ERROR"
  using forbidden_host [of evil_request "demo_server 37000" "''/app/ws''"]
  by (simp add: evil_request_def demo_server_def)

text \<open>
  C9. The check passes exactly when the host of the request, as it stands, is an
  element of the configured hosts; otherwise it raises \<open>HTTPError\<close> 403. Nothing is
  normalised: a host with a port, in another case or a part of a listed host is not
  the listed host.
\<close>

theorem host_whitelist_exact:
  "(fst (check_host_whitelist s r) = Inr ()) = (host r \<in> set (self_hosts s)) \<and>
   (fst (check_host_whitelist s r) = Inl (HTTPError 403 ''request host not in whitelist'')) =
     (host r \<notin> set (self_hosts s))"
  by (simp add: check_host_whitelist_def)

theorem host_whitelist_exact_witness:
  "fst (check_host_whitelist (demo_server 0) \<lparr>host = ''good.example'', protocol = ''http''\<rparr>) = Inr () \<and>
   fst (check_host_whitelist (demo_server 0) \<lparr>host = ''good.example:5006'', protocol = ''http''\<rparr>) \<noteq> Inr () \<and>
   fst (check_host_whitelist (demo_server 0) \<lparr>host = ''Good.example'', protocol = ''http''\<rparr>) \<noteq> Inr () \<and>
   fst (check_host_whitelist (demo_server 0) \<lparr>host = ''example'', protocol = ''http''\<rparr>) \<noteq> Inr ()"
  using host_whitelist_exact [of "demo_server 0" "\<lparr>host = ''good.example'', protocol = ''http''\<rparr>"]
    host_whitelist_exact [of "demo_server 0" "\<lparr>host = ''good.example:5006'', protocol = ''http''\<rparr>"]
    host_whitelist_exact [of "demo_server 0" "\<lparr>host = ''Good.example'', protocol = ''http''\<rparr>"]
    host_whitelist_exact [of "demo_server 0" "\<lparr>host = ''example'', protocol = ''http''\<rparr>"]
  by (simp add: demo_server_def)

subsection \<open>Sessions\<close>

lemma ctx_get_session_stores:
  assumes "ctx_get_session now ctx sid = (x, ctx')"
  shows "sessions ctx' sid = Some x"
    and "\<not> expired x"
    and "other \<noteq> sid \<Longrightarrow> sessions ctx' other = sessions ctx other"
    and "application ctx' = application ctx"
  using assms
  by (auto simp add: ctx_get_session_def Let_def split: option.splits if_splits)

lemma ctx_get_session_existing:
  assumes "sessions ctx sid = Some y" "\<not> expired y"
  shows "ctx_get_session now ctx sid = (y, ctx)"
  using assms by (simp add: ctx_get_session_def Let_def)

lemma ctx_get_session_new:
  assumes "sessions ctx sid = None \<or> (\<exists>y. sessions ctx sid = Some y \<and> expired y)"
  shows "fst (ctx_get_session now ctx sid) =
           \<lparr>session_id = sid, last_active = now, attached = [], expired = False\<rparr>"
  using assms by (auto simp add: ctx_get_session_def Let_def)

lemma ctx_get_session_new_ctx:
  assumes "sessions ctx sid = None \<or> (\<exists>y. sessions ctx sid = Some y \<and> expired y)"
  shows "snd (ctx_get_session now ctx sid) =
           ctx\<lparr>sessions := (sessions ctx)(sid \<mapsto>
             \<lparr>session_id = sid, last_active = now, attached = [], expired = False\<rparr>)\<rparr>"
  using assms by (auto simp add: ctx_get_session_def Let_def)

text \<open>
  C3. \<open>get_session\<close> for a path that is not registered raises \<open>ValueError\<close> and leaves
  the whole state as it was. For a registered path it returns a session that is not
  expired and that the directory of that application holds under the given id after the
  call; only that entry of that application can have changed. A session that was there
  and not expired is returned as it is, with the state unchanged. Where there was none,
  or only an expired one, the returned session is a new one, made at the time of the
  call with no connection attached, and the directory holds it in place of what was
  there.
\<close>

theorem get_session_registered:
  "(self_applications s app_path = None \<longrightarrow>
      get_session s app_path sid =
        (Inl (ValueError (''Application '' @ app_path @ '' does not exist on this server'')), s)) \<and>
   (\<forall>ctx. self_applications s app_path = Some ctx \<longrightarrow>
      (\<exists>x ctx'. get_session s app_path sid =
                  (Inr x, s\<lparr>self_applications := (self_applications s)(app_path \<mapsto> ctx')\<rparr>) \<and>
               sessions ctx' sid = Some x \<and> \<not> expired x \<and>
               (\<forall>other. other \<noteq> sid \<longrightarrow> sessions ctx' other = sessions ctx other) \<and>
               application ctx' = application ctx \<and>
               (\<forall>y. sessions ctx sid = Some y \<and> \<not> expired y \<longrightarrow>
                  x = y \<and> get_session s app_path sid = (Inr y, s)) \<and>
               (sessions ctx sid = None \<or> (\<exists>y. sessions ctx sid = Some y \<and> expired y) \<longrightarrow>
                  x = \<lparr>session_id = sid, last_active = env_clock s, attached = [],
                       expired = False\<rparr> \<and>
                  ctx' = ctx\<lparr>sessions := (sessions ctx)(sid \<mapsto> x)\<rparr>)))"
proof (intro conjI allI impI)
  assume "self_applications s app_path = None"
  then show "get_session s app_path sid =
        (Inl (ValueError (''Application '' @ app_path @ '' does not exist on this server'')), s)"
    by (simp add: get_session_def)
next
  fix ctx
  assume reg: "self_applications s app_path = Some ctx"
  obtain x ctx' where g: "ctx_get_session (env_clock s) ctx sid = (x, ctx')"
    by (cases "ctx_get_session (env_clock s) ctx sid")
  have call: "get_session s app_path sid =
      (Inr x, s\<lparr>self_applications := (self_applications s)(app_path \<mapsto> ctx')\<rparr>)"
    using reg g by (simp add: get_session_def)
  have same: "x = y \<and> get_session s app_path sid = (Inr y, s)"
    if "sessions ctx sid = Some y \<and> \<not> expired y" for y
  proof -
    have "ctx_get_session (env_clock s) ctx sid = (y, ctx)"
      using that by (simp add: ctx_get_session_existing)
    with g have "x = y" "ctx' = ctx" by simp_all
    moreover have "s\<lparr>self_applications := (self_applications s)(app_path \<mapsto> ctx)\<rparr> = s"
      using reg by (simp add: map_upd_triv)
    ultimately show ?thesis using call by simp
  qed
  have new: "x = \<lparr>session_id = sid, last_active = env_clock s, attached = [], expired = False\<rparr>"
    if "sessions ctx sid = None \<or> (\<exists>y. sessions ctx sid = Some y \<and> expired y)"
    using ctx_get_session_new [OF that, of "env_clock s"] g by simp
  have newctx: "ctx' = ctx\<lparr>sessions := (sessions ctx)(sid \<mapsto> x)\<rparr>"
    if "sessions ctx sid = None \<or> (\<exists>y. sessions ctx sid = Some y \<and> expired y)"
    using ctx_get_session_new_ctx [OF that, of "env_clock s"] new [OF that] g by simp
  show "\<exists>x ctx'. get_session s app_path sid =
                  (Inr x, s\<lparr>self_applications := (self_applications s)(app_path \<mapsto> ctx')\<rparr>) \<and>
               sessions ctx' sid = Some x \<and> \<not> expired x \<and>
               (\<forall>other. other \<noteq> sid \<longrightarrow> sessions ctx' other = sessions ctx other) \<and>
               application ctx' = application ctx \<and>
               (\<forall>y. sessions ctx sid = Some y \<and> \<not> expired y \<longrightarrow>
                  x = y \<and> get_session s app_path sid = (Inr y, s)) \<and>
               (sessions ctx sid = None \<or> (\<exists>y. sessions ctx sid = Some y \<and> expired y) \<longrightarrow>
                  x = \<lparr>session_id = sid, last_active = env_clock s, attached = [],
                       expired = False\<rparr> \<and>
                  ctx' = ctx\<lparr>sessions := (sessions ctx)(sid \<mapsto> x)\<rparr>)"
  proof (intro exI conjI allI impI)
    show "get_session s app_path sid =
      (Inr x, s\<lparr>self_applications := (self_applications s)(app_path \<mapsto> ctx')\<rparr>)"
      by (rule call)
    show "sessions ctx' sid = Some x" by (rule ctx_get_session_stores(1) [OF g])
    show "\<not> expired x" by (rule ctx_get_session_stores(2) [OF g])
    show "sessions ctx' other = sessions ctx other" if "other \<noteq> sid" for other
      using that by (rule ctx_get_session_stores(3) [OF g])
    show "application ctx' = application ctx" by (rule ctx_get_session_stores(4) [OF g])
    show "x = y" if "sessions ctx sid = Some y \<and> \<not> expired y" for y
      using same [OF that] by simp
    show "get_session s app_path sid = (Inr y, s)"
      if "sessions ctx sid = Some y \<and> \<not> expired y" for y
      using same [OF that] by simp
    show "x = \<lparr>session_id = sid, last_active = env_clock s, attached = [], expired = False\<rparr>"
      if "sessions ctx sid = None \<or> (\<exists>y. sessions ctx sid = Some y \<and> expired y)"
      using that by (rule new)
    show "ctx' = ctx\<lparr>sessions := (sessions ctx)(sid \<mapsto> x)\<rparr>"
      if "sessions ctx sid = None \<or> (\<exists>y. sessions ctx sid = Some y \<and> expired y)"
      using that by (rule newctx)
  qed
qed

theorem get_session_registered_witness:
  "self_applications (demo_server 0) ''/nope'' = None \<and>
   get_session (demo_server 0) ''/nope'' ''s1'' =
     (Inl (ValueError ''Application /nope does not exist on this server''), demo_server 0) \<and>
   self_applications (demo_server 0) ''/app'' = Some (ApplicationContext ''app'') \<and>
   fst (get_session (demo_server 0) ''/app'' ''s1'') =
     Inr \<lparr>session_id = ''s1'', last_active = 0, attached = [], expired = False\<rparr> \<and>
   self_applications demo_expired ''/app'' =
     Some \<lparr>application = ''app'', sessions = [''s1'' \<mapsto> stale_session]\<rparr> \<and>
   expired stale_session \<and>
   fst (get_session demo_expired ''/app'' ''s1'') =
     Inr \<lparr>session_id = ''s1'', last_active = 100, attached = [], expired = False\<rparr> \<and>
   self_applications (run (demo_server 0) [GetSession ''/app'' ''s1'']) ''/app'' =
     Some \<lparr>application = ''app'',
           sessions = [''s1'' \<mapsto> \<lparr>session_id = ''s1'', last_active = 0, attached = [],
                                     expired = False\<rparr>]\<rparr> \<and>
   get_session (run (demo_server 0) [GetSession ''/app'' ''s1'']) ''/app'' ''s1'' =
     (Inr \<lparr>session_id = ''s1'', last_active = 0, attached = [], expired = False\<rparr>,
      run (demo_server 0) [GetSession ''/app'' ''s1''])"
proof -
  have a: "self_applications (demo_server 0) ''/nope'' = None"
    by (simp add: demo_server_def)
  have b: "self_applications (demo_server 0) ''/app'' = Some (ApplicationContext ''app'')"
    by (simp add: demo_server_def)
  have c: "sessions (ApplicationContext ''app'') ''s1'' = None"
    by (simp add: ApplicationContext_def)
  have d: "env_clock (demo_server 0) = 0"
    by (simp add: demo_server_def)
  have e: "get_session (demo_server 0) ''/nope'' ''s1'' =
     (Inl (ValueError (''Application '' @ ''/nope'' @ '' does not exist on this server'')),
      demo_server 0)"
    by (rule get_session_registered [THEN conjunct1, rule_format, OF a])
  have "\<exists>x ctx'. get_session (demo_server 0) ''/app'' ''s1'' =
                  (Inr x, (demo_server 0)\<lparr>self_applications :=
                     (self_applications (demo_server 0))(''/app'' \<mapsto> ctx')\<rparr>) \<and>
               sessions ctx' ''s1'' = Some x \<and> \<not> expired x \<and>
               (\<forall>other. other \<noteq> ''s1'' \<longrightarrow>
                  sessions ctx' other = sessions (ApplicationContext ''app'') other) \<and>
               application ctx' = application (ApplicationContext ''app'') \<and>
               (\<forall>y. sessions (ApplicationContext ''app'') ''s1'' = Some y \<and> \<not> expired y \<longrightarrow>
                  x = y \<and> get_session (demo_server 0) ''/app'' ''s1'' = (Inr y, demo_server 0)) \<and>
               (sessions (ApplicationContext ''app'') ''s1'' = None \<or>
                (\<exists>y. sessions (ApplicationContext ''app'') ''s1'' = Some y \<and> expired y) \<longrightarrow>
                  x = \<lparr>session_id = ''s1'', last_active = env_clock (demo_server 0),
                       attached = [], expired = False\<rparr> \<and>
                  ctx' = (ApplicationContext ''app'')\<lparr>sessions :=
                           (sessions (ApplicationContext ''app''))(''s1'' \<mapsto> x)\<rparr>)"
    by (rule get_session_registered [THEN conjunct2, rule_format, OF b])
  then obtain x ctx' where
    g: "get_session (demo_server 0) ''/app'' ''s1'' =
       (Inr x, (demo_server 0)\<lparr>self_applications :=
          (self_applications (demo_server 0))(''/app'' \<mapsto> ctx')\<rparr>)"
    and n: "sessions (ApplicationContext ''app'') ''s1'' = None \<or>
            (\<exists>y. sessions (ApplicationContext ''app'') ''s1'' = Some y \<and> expired y) \<longrightarrow>
         x = \<lparr>session_id = ''s1'', last_active = env_clock (demo_server 0), attached = [],
              expired = False\<rparr> \<and>
         ctx' = (ApplicationContext ''app'')\<lparr>sessions :=
                  (sessions (ApplicationContext ''app''))(''s1'' \<mapsto> x)\<rparr>"
    by (elim exE conjE)
  from n c d have x: "x = \<lparr>session_id = ''s1'', last_active = 0, attached = [], expired = False\<rparr>"
    by simp
  have f: "fst (get_session (demo_server 0) ''/app'' ''s1'') =
     Inr \<lparr>session_id = ''s1'', last_active = 0, attached = [], expired = False\<rparr>"
    unfolding g x by simp
  have e': "''Application '' @ ''/nope'' @ '' does not exist on this server'' =
      ''Application /nope does not exist on this server''"
    by simp
  let ?old = "\<lparr>application = ''app'', sessions = [''s1'' \<mapsto> stale_session]\<rparr>"
  have b2: "self_applications demo_expired ''/app'' = Some ?old"
    by (simp add: demo_expired_def)
  have c2: "sessions ?old ''s1'' = Some stale_session \<and> expired stale_session"
    by (simp add: stale_session_def)
  have st: "expired stale_session"
    by (simp add: stale_session_def)
  have d2: "env_clock demo_expired = 100"
    by (simp add: demo_expired_def)
  have "\<exists>x ctx'. get_session demo_expired ''/app'' ''s1'' =
                  (Inr x, demo_expired\<lparr>self_applications :=
                     (self_applications demo_expired)(''/app'' \<mapsto> ctx')\<rparr>) \<and>
               sessions ctx' ''s1'' = Some x \<and> \<not> expired x \<and>
               (\<forall>other. other \<noteq> ''s1'' \<longrightarrow> sessions ctx' other = sessions ?old other) \<and>
               application ctx' = application ?old \<and>
               (\<forall>y. sessions ?old ''s1'' = Some y \<and> \<not> expired y \<longrightarrow>
                  x = y \<and> get_session demo_expired ''/app'' ''s1'' = (Inr y, demo_expired)) \<and>
               (sessions ?old ''s1'' = None \<or>
                (\<exists>y. sessions ?old ''s1'' = Some y \<and> expired y) \<longrightarrow>
                  x = \<lparr>session_id = ''s1'', last_active = env_clock demo_expired,
                       attached = [], expired = False\<rparr> \<and>
                  ctx' = ?old\<lparr>sessions := (sessions ?old)(''s1'' \<mapsto> x)\<rparr>)"
    by (rule get_session_registered [THEN conjunct2, rule_format, OF b2])
  then obtain x2 ctx2 where
    g2: "get_session demo_expired ''/app'' ''s1'' =
       (Inr x2, demo_expired\<lparr>self_applications :=
          (self_applications demo_expired)(''/app'' \<mapsto> ctx2)\<rparr>)"
    and n2: "sessions ?old ''s1'' = None \<or>
            (\<exists>y. sessions ?old ''s1'' = Some y \<and> expired y) \<longrightarrow>
         x2 = \<lparr>session_id = ''s1'', last_active = env_clock demo_expired, attached = [],
              expired = False\<rparr> \<and>
         ctx2 = ?old\<lparr>sessions := (sessions ?old)(''s1'' \<mapsto> x2)\<rparr>"
    by (elim exE conjE)
  have pre: "sessions ?old ''s1'' = None \<or> (\<exists>y. sessions ?old ''s1'' = Some y \<and> expired y)"
    using c2 by (intro disjI2 exI)
  from n2 [rule_format, OF pre] d2
  have x2: "x2 = \<lparr>session_id = ''s1'', last_active = 100, attached = [], expired = False\<rparr>"
    by simp
  have f2: "fst (get_session demo_expired ''/app'' ''s1'') =
     Inr \<lparr>session_id = ''s1'', last_active = 100, attached = [], expired = False\<rparr>"
    unfolding g2 x2 by simp
  let ?s = "run (demo_server 0) [GetSession ''/app'' ''s1'']"
  let ?x = "\<lparr>session_id = ''s1'', last_active = 0, attached = [], expired = False\<rparr>"
  let ?ctx = "\<lparr>application = ''app'', sessions = [''s1'' \<mapsto> ?x]\<rparr>"
  have b3: "self_applications ?s ''/app'' = Some ?ctx"
    by (simp add: run_def demo_server_def get_session_def ctx_get_session_def
        ApplicationContext_def Let_def)
  have c3: "sessions ?ctx ''s1'' = Some ?x \<and> \<not> expired ?x"
    by simp
  have "\<exists>x ctx'. get_session ?s ''/app'' ''s1'' =
                  (Inr x, ?s\<lparr>self_applications := (self_applications ?s)(''/app'' \<mapsto> ctx')\<rparr>) \<and>
               sessions ctx' ''s1'' = Some x \<and> \<not> expired x \<and>
               (\<forall>other. other \<noteq> ''s1'' \<longrightarrow> sessions ctx' other = sessions ?ctx other) \<and>
               application ctx' = application ?ctx \<and>
               (\<forall>y. sessions ?ctx ''s1'' = Some y \<and> \<not> expired y \<longrightarrow>
                  x = y \<and> get_session ?s ''/app'' ''s1'' = (Inr y, ?s)) \<and>
               (sessions ?ctx ''s1'' = None \<or>
                (\<exists>y. sessions ?ctx ''s1'' = Some y \<and> expired y) \<longrightarrow>
                  x = \<lparr>session_id = ''s1'', last_active = env_clock ?s,
                       attached = [], expired = False\<rparr> \<and>
                  ctx' = ?ctx\<lparr>sessions := (sessions ?ctx)(''s1'' \<mapsto> x)\<rparr>)"
    by (rule get_session_registered [THEN conjunct2, rule_format, OF b3])
  then obtain x3 ctx3 where
    l3: "\<forall>y. sessions ?ctx ''s1'' = Some y \<and> \<not> expired y \<longrightarrow>
                  x3 = y \<and> get_session ?s ''/app'' ''s1'' = (Inr y, ?s)"
    by (elim exE conjE)
  from l3 [rule_format, OF c3] have f3: "get_session ?s ''/app'' ''s1'' = (Inr ?x, ?s)"
    by (rule conjunct2)
  show ?thesis
    using a b e f b2 st f2 b3 f3 unfolding e' by (intro conjI)
qed

subsection \<open>The resource cache\<close>

text \<open>What each call does to the resource cache and to the whitelist.\<close>

lemma root_url_ok:
  "host r \<in> set (self_hosts s) \<Longrightarrow>
   root_url_for_request s r = (Inr (protocol r @ ''://'' @ host r @ ''/''), s)"
  by (simp add: root_url_for_request_def check_ok)

lemma resources_hit:
  "host r \<in> set (self_hosts s) \<Longrightarrow>
   self_resources s (protocol r @ ''://'' @ host r @ ''/'') = Some d \<Longrightarrow>
   resources s r = (Inr d, s)"
  by (simp add: resources_def root_url_ok)

lemma resources_miss:
  "host r \<in> set (self_hosts s) \<Longrightarrow>
   self_resources s (protocol r @ ''://'' @ host r @ ''/'') = None \<Longrightarrow>
   resources s r =
     (Inr (Resources (env_allocated s) ''server'' (protocol r @ ''://'' @ host r @ ''/'')),
      s\<lparr>self_resources := (self_resources s)(protocol r @ ''://'' @ host r @ ''/'' \<mapsto>
           Resources (env_allocated s) ''server'' (protocol r @ ''://'' @ host r @ ''/'')),
        env_allocated := Suc (env_allocated s)\<rparr>)"
  by (simp add: resources_def root_url_ok Let_def)

lemma frame_check:
  "self_resources (snd (check_host_whitelist s r)) = self_resources s"
  "self_hosts (snd (check_host_whitelist s r)) = self_hosts s"
  by (simp_all add: check_host_whitelist_def)

lemma frame_root_url:
  "self_resources (snd (root_url_for_request s r)) = self_resources s"
  "self_hosts (snd (root_url_for_request s r)) = self_hosts s"
  by (simp_all add: root_url_for_request_def check_host_whitelist_def)

lemma frame_websocket_url:
  "self_resources (snd (websocket_url_for_request s r p)) = self_resources s"
  "self_hosts (snd (websocket_url_for_request s r p)) = self_hosts s"
  by (simp_all add: websocket_url_for_request_def check_host_whitelist_def)

lemma frame_resources:
  "self_resources s \<subseteq>\<^sub>m self_resources (snd (resources s r))"
  "self_hosts (snd (resources s r)) = self_hosts s"
proof -
  show "self_resources s \<subseteq>\<^sub>m self_resources (snd (resources s r))"
  proof (cases "host r \<in> set (self_hosts s)")
    case False
    then show ?thesis by (simp add: resources_def root_url_for_request_def check_fail)
  next
    case True
    show ?thesis
    proof (cases "self_resources s (protocol r @ ''://'' @ host r @ ''/'')")
      case None
      then show ?thesis using True
        by (simp add: resources_miss map_le_def dom_def)
    next
      case (Some d)
      then show ?thesis using True by (simp add: resources_hit)
    qed
  qed
  show "self_hosts (snd (resources s r)) = self_hosts s"
  proof (cases "host r \<in> set (self_hosts s)")
    case False
    then show ?thesis by (simp add: resources_def root_url_for_request_def check_fail)
  next
    case True
    then show ?thesis
      by (cases "self_resources s (protocol r @ ''://'' @ host r @ ''/'')")
         (simp_all add: resources_miss resources_hit)
  qed
qed

lemma frame_start:
  "self_resources (start s i) = self_resources s"
  "self_hosts (start s i) = self_hosts s"
  by (simp_all add: start_def Let_def)

lemma frame_stop:
  "self_resources (stop s) = self_resources s"
  "self_hosts (stop s) = self_hosts s"
  by (simp_all add: stop_def)

lemma frame_new_connection:
  "self_resources (snd (new_connection s p k a x)) = self_resources s"
  "self_hosts (snd (new_connection s p k a x)) = self_hosts s"
  by (simp_all add: new_connection_def Let_def)

lemma frame_client_lost:
  "self_resources (client_lost s c) = self_resources s"
  "self_hosts (client_lost s c) = self_hosts s"
  by (simp_all add: client_lost_def)

lemma frame_get_session:
  "self_resources (snd (get_session s a x)) = self_resources s"
  "self_hosts (snd (get_session s a x)) = self_hosts s"
  by (simp_all add: get_session_def split: option.splits prod.splits)

lemma frame_cleanup_sessions:
  "self_resources (cleanup_sessions s) = self_resources s"
  "self_hosts (cleanup_sessions s) = self_hosts s"
  by (simp_all add: cleanup_sessions_def)

lemma frame_log_stats:
  "self_resources (log_stats s) = self_resources s"
  "self_hosts (log_stats s) = self_hosts s"
  by (simp_all add: log_stats_def)

lemma frame_keep_alive:
  "self_resources (snd (keep_alive s)) = self_resources s"
  "self_hosts (snd (keep_alive s)) = self_hosts s"
  by (simp_all add: keep_alive_def split: prod.splits)

lemma frame_start_async:
  "self_resources (snd (start_async s m)) = self_resources s"
  "self_hosts (snd (start_async s m)) = self_hosts s"
  by (simp_all add: start_async_def)

lemma frame_atexit:
  "self_resources (atexit s) = self_resources s"
  "self_hosts (atexit s) = self_hosts s"
  by (simp_all add: atexit_def cleanup_def)

lemma frame_sigterm:
  "self_resources (sigterm s) = self_resources s"
  "self_hosts (sigterm s) = self_hosts s"
  by (simp_all add: sigterm_def frame_atexit frame_stop)

lemmas frame_eqs =
  frame_root_url frame_websocket_url frame_start frame_stop frame_new_connection
  frame_client_lost frame_get_session frame_cleanup_sessions frame_log_stats
  frame_keep_alive frame_start_async frame_atexit frame_sigterm

lemma exec_resources:
  "self_resources s \<subseteq>\<^sub>m self_resources (exec s c)"
  by (cases c) (simp_all add: frame_eqs frame_resources)

lemma exec_hosts: "self_hosts (exec s c) = self_hosts s"
  by (cases c) (simp_all add: frame_eqs frame_resources)

lemma run_resources: "self_resources s \<subseteq>\<^sub>m self_resources (run s cs)"
  unfolding run_def
proof (induction cs arbitrary: s)
  case Nil
  then show ?case by simp
next
  case (Cons c cs)
  have "self_resources s \<subseteq>\<^sub>m self_resources (exec s c)" by (rule exec_resources)
  also have "\<dots> \<subseteq>\<^sub>m self_resources (foldl exec (exec s c) cs)" by (rule Cons.IH)
  finally show ?case by simp
qed

lemma run_hosts: "self_hosts (run s cs) = self_hosts s"
  unfolding run_def by (induction cs arbitrary: s) (simp_all add: exec_hosts)

text \<open>
  C8. Two lookups for requests with the same scheme and host that pass the host check
  return the same object, and the second changes nothing. After the first lookup the
  cache has an entry for that root URL and for no other new key; where there was none,
  the object is a new one, for mode \<open>server\<close> and that root URL. No call ever takes an
  entry away: after any sequence of calls the cache still contains what it contained,
  and the lookup still returns the same object.
\<close>

theorem resources_memo:
  assumes ok: "host r1 \<in> set (self_hosts s)"
    and same_host: "host r2 = host r1"
    and same_scheme: "protocol r2 = protocol r1"
  shows "\<exists>d s1. resources s r1 = (Inr d, s1) \<and>
           resources s1 r2 = (Inr d, s1) \<and>
           self_resources s1 (protocol r1 @ ''://'' @ host r1 @ ''/'') = Some d \<and>
           dom (self_resources s1) =
             insert (protocol r1 @ ''://'' @ host r1 @ ''/'') (dom (self_resources s)) \<and>
           (self_resources s (protocol r1 @ ''://'' @ host r1 @ ''/'') = None \<longrightarrow>
              d = Resources (env_allocated s) ''server'' (protocol r1 @ ''://'' @ host r1 @ ''/'')) \<and>
           (\<forall>cs. self_resources s1 \<subseteq>\<^sub>m self_resources (run s1 cs)) \<and>
           (\<forall>cs. resources (run s1 cs) r2 = (Inr d, run s1 cs))"
proof -
  let ?u = "protocol r1 @ ''://'' @ host r1 @ ''/''"
  have u2: "protocol r2 @ ''://'' @ host r2 @ ''/'' = ?u"
    by (simp add: same_host same_scheme)
  obtain d s1 where call: "resources s r1 = (Inr d, s1)"
    and stored: "self_resources s1 ?u = Some d"
    and hosts1: "self_hosts s1 = self_hosts s"
    and dom1: "dom (self_resources s1) = insert ?u (dom (self_resources s))"
    and new: "self_resources s ?u = None \<longrightarrow> d = Resources (env_allocated s) ''server'' ?u"
  proof (cases "self_resources s ?u")
    case None
    show ?thesis
    proof (rule that)
      show "resources s r1 =
        (Inr (Resources (env_allocated s) ''server'' ?u),
         s\<lparr>self_resources := (self_resources s)(?u \<mapsto> Resources (env_allocated s) ''server'' ?u),
           env_allocated := Suc (env_allocated s)\<rparr>)"
        using ok None by (rule resources_miss)
    qed simp_all
  next
    case (Some d)
    show ?thesis
    proof (rule that)
      show "resources s r1 = (Inr d, s)" using ok Some by (rule resources_hit)
      show "dom (self_resources s) = insert ?u (dom (self_resources s))"
        using Some by auto
      show "self_resources s ?u = Some d" by (rule Some)
      show "self_hosts s = self_hosts s" by (rule refl)
      show "self_resources s ?u = None \<longrightarrow> d = Resources (env_allocated s) ''server'' ?u"
        using Some by simp
    qed
  qed
  have again: "resources (run s1 cs) r2 = (Inr d, run s1 cs)" for cs
  proof (rule resources_hit)
    show "host r2 \<in> set (self_hosts (run s1 cs))"
      using ok by (simp add: run_hosts hosts1 same_host)
    have "self_resources s1 \<subseteq>\<^sub>m self_resources (run s1 cs)" by (rule run_resources)
    then have "self_resources (run s1 cs) ?u = Some d"
      using stored by (auto simp add: map_le_def dom_def)
    then show "self_resources (run s1 cs) (protocol r2 @ ''://'' @ host r2 @ ''/'') = Some d"
      by (simp only: u2)
  qed
  have second: "resources s1 r2 = (Inr d, s1)"
    using again [of "[]"] by (simp add: run_def)
  show ?thesis
  proof (intro exI conjI allI)
    show "resources s r1 = (Inr d, s1)" by (rule call)
    show "resources s1 r2 = (Inr d, s1)" by (rule second)
    show "self_resources s1 ?u = Some d" by (rule stored)
    show "dom (self_resources s1) = insert ?u (dom (self_resources s))" by (rule dom1)
    show "self_resources s ?u = None \<longrightarrow> d = Resources (env_allocated s) ''server'' ?u"
      by (rule new)
    show "self_resources s1 \<subseteq>\<^sub>m self_resources (run s1 cs)" for cs by (rule run_resources)
    show "resources (run s1 cs) r2 = (Inr d, run s1 cs)" for cs by (rule again)
  qed
qed

theorem resources_memo_witness:
  "host (good_request ''http'') \<in> set (self_hosts (demo_server 0)) \<and>
   fst (resources (demo_server 0) (good_request ''http'')) =
     Inr (Resources 0 ''server'' ''http://good.example/'') \<and>
   resources (snd (resources (demo_server 0) (good_request ''http''))) (good_request ''http'') =
     (Inr (Resources 0 ''server'' ''http://good.example/''),
      snd (resources (demo_server 0) (good_request ''http''))) \<and>
   dom (self_resources (snd (resources (demo_server 0) (good_request ''http'')))) =
     {''http://good.example/''}"
proof -
  let ?s = "demo_server 0" and ?r = "good_request ''http''"
  have h: "host ?r \<in> set (self_hosts ?s)"
    by (simp add: good_request_def demo_server_def)
  have u: "protocol ?r @ ''://'' @ host ?r @ ''/'' = ''http://good.example/''"
    by (simp add: good_request_def)
  have none: "self_resources ?s ''http://good.example/'' = None"
    by (simp add: demo_server_def)
  have alloc: "env_allocated ?s = 0"
    by (simp add: demo_server_def)
  have empty: "dom (self_resources ?s) = {}"
    by (simp add: demo_server_def)
  from resources_memo [OF h refl refl]
  obtain d s1 where call: "resources ?s ?r = (Inr d, s1)"
    and again: "resources s1 ?r = (Inr d, s1)"
    and doms: "dom (self_resources s1) =
         insert (protocol ?r @ ''://'' @ host ?r @ ''/'') (dom (self_resources ?s))"
    and new: "self_resources ?s (protocol ?r @ ''://'' @ host ?r @ ''/'') = None \<longrightarrow>
         d = Resources (env_allocated ?s) ''server'' (protocol ?r @ ''://'' @ host ?r @ ''/'')"
    by (elim exE conjE)
  have d: "d = Resources 0 ''server'' ''http://good.example/''"
    using new none alloc unfolding u by simp
  have s1: "snd (resources ?s ?r) = s1" by (simp add: call)
  have 1: "fst (resources ?s ?r) = Inr (Resources 0 ''server'' ''http://good.example/'')"
    by (simp add: call d)
  have 2: "resources (snd (resources ?s ?r)) ?r =
      (Inr (Resources 0 ''server'' ''http://good.example/''), snd (resources ?s ?r))"
    unfolding s1 using again d by simp
  have 3: "dom (self_resources (snd (resources ?s ?r))) = {''http://good.example/''}"
    unfolding s1 using doms empty unfolding u by simp
  show ?thesis using h 1 2 3 by (intro conjI)
qed

subsection \<open>Losing a connection\<close>








text \<open>The demonstration servers, evaluated.\<close>

lemmas eval_defs =
  run_def demo_server_def get_session_def ctx_get_session_def new_connection_def
  set_add_def attach_session_def ctx_attach_def ApplicationContext_def Let_def

lemma demo_connected_clients: "self_clients demo_connected = [demo_conn]"
  by (simp add: demo_connected_def demo_conn_def eval_defs)






subsection \<open>Stopping and cleaning up\<close>

lemma exec_executor:
  assumes "c \<noteq> Atexit" "c \<noteq> Sigterm"
  shows "self_executor (exec s c) = self_executor s"
proof (cases c)
  case (RootUrlForRequest r)
  then show ?thesis by (simp add: root_url_for_request_def check_host_whitelist_def)
next
  case (WebsocketUrlForRequest r p)
  then show ?thesis by (simp add: websocket_url_for_request_def check_host_whitelist_def)
next
  case (ResourcesFor r)
  then show ?thesis
    by (simp add: resources_def root_url_for_request_def check_host_whitelist_def Let_def
        split: option.splits)
next
  case (Start i)
  then show ?thesis by (simp add: start_def Let_def)
next
  case Stop
  then show ?thesis by (simp add: stop_def)
next
  case (NewConnection p k a x)
  then show ?thesis by (simp add: new_connection_def Let_def)
next
  case (ClientLost x)
  then show ?thesis by (simp add: client_lost_def)
next
  case (GetSession a x)
  then show ?thesis by (simp add: get_session_def split: option.splits prod.splits)
next
  case CleanupSessionsJob
  then show ?thesis by (simp add: cleanup_sessions_def)
next
  case LogStatsJob
  then show ?thesis by (simp add: log_stats_def)
next
  case KeepAliveJob
  then show ?thesis by (simp add: keep_alive_def split: prod.splits)
next
  case (StartAsyncCallback m)
  then show ?thesis by (simp add: start_async_def)
next
  case Atexit
  then show ?thesis using assms by simp
next
  case Sigterm
  then show ?thesis using assms by simp
next
  case (Tick n)
  then show ?thesis by simp
next
  case (SocketClosed i)
  then show ?thesis by simp
qed

lemma socket_closed_ids:
  "conn_id ` set (map (\<lambda>c. if conn_id c = i then c\<lparr>socket_open := False\<rparr> else c) cs) =
   conn_id ` set cs"
  by (induction cs) auto

lemma exec_clients:
  assumes "c \<noteq> Atexit" "c \<noteq> Sigterm"
  shows "conn_id ` set (self_clients s) - (case c of ClientLost x \<Rightarrow> {conn_id x} | _ \<Rightarrow> {})
           \<subseteq> conn_id ` set (self_clients (exec s c))"
proof (cases c)
  case (RootUrlForRequest r)
  then show ?thesis by (simp add: root_url_for_request_def check_host_whitelist_def)
next
  case (WebsocketUrlForRequest r p)
  then show ?thesis by (simp add: websocket_url_for_request_def check_host_whitelist_def)
next
  case (ResourcesFor r)
  then show ?thesis
    by (simp add: resources_def root_url_for_request_def check_host_whitelist_def Let_def
        split: option.splits)
next
  case (Start i)
  then show ?thesis by (simp add: start_def Let_def)
next
  case Stop
  then show ?thesis by (simp add: stop_def)
next
  case (NewConnection p k a x)
  then show ?thesis by (auto simp add: new_connection_def Let_def set_add_def)
next
  case (ClientLost x)
  then show ?thesis by (auto simp add: client_lost_def set_discard_def)
next
  case (GetSession a x)
  then show ?thesis by (simp add: get_session_def split: option.splits prod.splits)
next
  case CleanupSessionsJob
  then show ?thesis by (simp add: cleanup_sessions_def)
next
  case LogStatsJob
  then show ?thesis by (simp add: log_stats_def)
next
  case KeepAliveJob
  then show ?thesis by (simp add: keep_alive_def split: prod.splits)
next
  case (StartAsyncCallback m)
  then show ?thesis by (simp add: start_async_def)
next
  case Atexit
  then show ?thesis using assms by simp
next
  case Sigterm
  then show ?thesis using assms by simp
next
  case (Tick n)
  then show ?thesis by simp
next
  case (SocketClosed i)
  have "self_clients (exec s (SocketClosed i)) =
        map (\<lambda>c. if conn_id c = i then c\<lparr>socket_open := False\<rparr> else c) (self_clients s)"
    by simp
  then have "conn_id ` set (self_clients (exec s (SocketClosed i))) =
             conn_id ` set (self_clients s)"
    by (simp only: socket_closed_ids)
  with SocketClosed show ?thesis by simp
qed

text \<open>
  C10. \<open>stop\<close> changes the three periodic jobs and the loop and nothing else: put back
  those four attributes and the state is the one before the call; the connections, the
  applications, the resource cache and the executor are the same. No call other than
  \<open>_atexit\<close> and \<open>_sigterm\<close> touches the executor, and none removes a connection from the
  set except \<open>client_lost\<close>, which removes the one it is given. The first \<open>_atexit\<close>,
  directly or through \<open>_sigterm\<close>, clears the set and shuts the executor down.
\<close>

theorem stop_frame:
  "(stop s)\<lparr>self_stats_job := self_stats_job s,
             self_cleanup_job := self_cleanup_job s,
             self_ping_job := self_ping_job s,
             self_loop := self_loop s\<rparr> = s \<and>
   self_clients (stop s) = self_clients s \<and>
   self_applications (stop s) = self_applications s \<and>
   self_resources (stop s) = self_resources s \<and>
   self_executor (stop s) = self_executor s \<and>
   self_stats_job (stop s) = job_stop (self_stats_job s) \<and>
   self_cleanup_job (stop s) = job_stop (self_cleanup_job s) \<and>
   self_ping_job (stop s) = map_option job_stop (self_ping_job s) \<and>
   self_loop (stop s) = (self_loop s)\<lparr>loop_running := False\<rparr> \<and>
   (\<forall>c. c \<noteq> Atexit \<and> c \<noteq> Sigterm \<longrightarrow> self_executor (exec s c) = self_executor s) \<and>
   (\<forall>c. c \<noteq> Atexit \<and> c \<noteq> Sigterm \<longrightarrow>
      conn_id ` set (self_clients s) - (case c of ClientLost x \<Rightarrow> {conn_id x} | _ \<Rightarrow> {})
        \<subseteq> conn_id ` set (self_clients (exec s c))) \<and>
   (\<not> self_atexit_ran s \<longrightarrow>
      self_clients (atexit s) = [] \<and>
      self_executor (atexit s) = executor_shutdown (self_executor s) \<and>
      self_clients (sigterm s) = [] \<and>
      self_executor (sigterm s) = executor_shutdown (self_executor s))"
proof -
  have whole: "(stop s)\<lparr>self_stats_job := self_stats_job s,
             self_cleanup_job := self_cleanup_job s,
             self_ping_job := self_ping_job s,
             self_loop := self_loop s\<rparr> = s"
    by (simp add: stop_def)
  have frame: "self_clients (stop s) = self_clients s \<and>
   self_applications (stop s) = self_applications s \<and>
   self_resources (stop s) = self_resources s \<and>
   self_executor (stop s) = self_executor s \<and>
   self_stats_job (stop s) = job_stop (self_stats_job s) \<and>
   self_cleanup_job (stop s) = job_stop (self_cleanup_job s) \<and>
   self_ping_job (stop s) = map_option job_stop (self_ping_job s) \<and>
   self_loop (stop s) = (self_loop s)\<lparr>loop_running := False\<rparr>"
    by (simp add: stop_def)
  have ex: "\<forall>c. c \<noteq> Atexit \<and> c \<noteq> Sigterm \<longrightarrow> self_executor (exec s c) = self_executor s"
    by (simp add: exec_executor)
  have cl: "\<forall>c. c \<noteq> Atexit \<and> c \<noteq> Sigterm \<longrightarrow>
      conn_id ` set (self_clients s) - (case c of ClientLost x \<Rightarrow> {conn_id x} | _ \<Rightarrow> {})
        \<subseteq> conn_id ` set (self_clients (exec s c))"
    using exec_clients by blast
  have at: "\<not> self_atexit_ran s \<longrightarrow>
      self_clients (atexit s) = [] \<and>
      self_executor (atexit s) = executor_shutdown (self_executor s) \<and>
      self_clients (sigterm s) = [] \<and>
      self_executor (sigterm s) = executor_shutdown (self_executor s)"
    by (simp add: sigterm_def atexit_def cleanup_def stop_def)
  from whole frame ex cl at show ?thesis by (simp only: simp_thms)
qed

theorem stop_frame_witness:
  "self_clients (stop demo_connected) = [demo_conn] \<and>
   self_executor (stop demo_connected) = ProcessPoolExecutor 4 \<and>
   self_executor (exec demo_connected KeepAliveJob) = ProcessPoolExecutor 4 \<and>
   conn_id ` set (self_clients (exec demo_connected KeepAliveJob)) = {0} \<and>
   \<not> self_atexit_ran demo_connected \<and>
   self_clients (atexit demo_connected) = [] \<and>
   self_executor (atexit demo_connected) = executor_shutdown (ProcessPoolExecutor 4)"
proof -
  note t = stop_frame [of demo_connected]
  have ex: "self_executor demo_connected = ProcessPoolExecutor 4"
    by (simp add: demo_connected_def eval_defs)
  have ran: "\<not> self_atexit_ran demo_connected"
    by (simp add: demo_connected_def eval_defs)
  from t have 1: "self_clients (stop demo_connected) = self_clients demo_connected"
    by (elim conjE)
  from t have 2: "self_executor (stop demo_connected) = self_executor demo_connected"
    by (elim conjE)
  from t have a3: "\<forall>c. c \<noteq> Atexit \<and> c \<noteq> Sigterm \<longrightarrow>
      self_executor (exec demo_connected c) = self_executor demo_connected"
    by (elim conjE)
  have 3: "self_executor (exec demo_connected KeepAliveJob) = self_executor demo_connected"
    by (rule a3 [rule_format]) simp
  from t have a4: "\<forall>c. c \<noteq> Atexit \<and> c \<noteq> Sigterm \<longrightarrow>
      conn_id ` set (self_clients demo_connected) -
        (case c of ClientLost x \<Rightarrow> {conn_id x} | _ \<Rightarrow> {})
        \<subseteq> conn_id ` set (self_clients (exec demo_connected c))"
    by (elim conjE)
  have "conn_id ` set (self_clients demo_connected) -
        (case KeepAliveJob of ClientLost x \<Rightarrow> {conn_id x} | _ \<Rightarrow> {})
        \<subseteq> conn_id ` set (self_clients (exec demo_connected KeepAliveJob))"
    by (rule a4 [rule_format]) simp
  then have 4: "{0} \<subseteq> conn_id ` set (self_clients (exec demo_connected KeepAliveJob))"
    by (simp add: demo_connected_clients demo_conn_def)
  have "self_clients (exec demo_connected KeepAliveJob) = self_clients demo_connected"
    by (simp add: keep_alive_def split: prod.splits)
  then have ids: "conn_id ` set (self_clients (exec demo_connected KeepAliveJob)) = {0}"
    using 4 by (simp add: demo_connected_clients demo_conn_def)
  from t have a5: "\<not> self_atexit_ran demo_connected \<longrightarrow>
      self_clients (atexit demo_connected) = [] \<and>
      self_executor (atexit demo_connected) = executor_shutdown (self_executor demo_connected) \<and>
      self_clients (sigterm demo_connected) = [] \<and>
      self_executor (sigterm demo_connected) = executor_shutdown (self_executor demo_connected)"
    by (elim conjE)
  from a5 [rule_format, OF ran]
  have 5: "self_clients (atexit demo_connected) = []"
    and 6: "self_executor (atexit demo_connected) = executor_shutdown (self_executor demo_connected)"
    by simp_all
  show ?thesis using 1 2 3 ids 5 6 ran by (simp only: demo_connected_clients ex simp_thms)
qed

subsection \<open>The keep-alive job\<close>

lemma job_stop_start: "job_stop (job_start j) = job_stop j"
  by (simp add: job_stop_def job_start_def)

lemma job_stop_stop: "job_stop (job_stop j) = job_stop j"
  by (simp add: job_stop_def)

lemma exec_ping_job:
  "map_option job_stop (self_ping_job (exec s c)) = map_option job_stop (self_ping_job s)"
proof (cases c)
  case (RootUrlForRequest r)
  then show ?thesis by (simp add: root_url_for_request_def check_host_whitelist_def)
next
  case (WebsocketUrlForRequest r p)
  then show ?thesis by (simp add: websocket_url_for_request_def check_host_whitelist_def)
next
  case (ResourcesFor r)
  then show ?thesis
    by (simp add: resources_def root_url_for_request_def check_host_whitelist_def Let_def
        split: option.splits)
next
  case (Start i)
  then show ?thesis
    by (simp add: start_def Let_def option.map_comp comp_def job_stop_start)
next
  case Stop
  then show ?thesis by (simp add: stop_def option.map_comp comp_def job_stop_stop)
next
  case (NewConnection p k a x)
  then show ?thesis by (simp add: new_connection_def Let_def)
next
  case (ClientLost x)
  then show ?thesis by (simp add: client_lost_def)
next
  case (GetSession a x)
  then show ?thesis by (simp add: get_session_def split: option.splits prod.splits)
next
  case CleanupSessionsJob
  then show ?thesis by (simp add: cleanup_sessions_def)
next
  case LogStatsJob
  then show ?thesis by (simp add: log_stats_def)
next
  case KeepAliveJob
  then show ?thesis by (simp add: keep_alive_def split: prod.splits)
next
  case (StartAsyncCallback m)
  then show ?thesis by (simp add: start_async_def)
next
  case Atexit
  then show ?thesis by (simp add: atexit_def cleanup_def)
next
  case Sigterm
  then show ?thesis
    by (simp add: sigterm_def atexit_def cleanup_def stop_def option.map_comp comp_def
        job_stop_stop)
next
  case (Tick n)
  then show ?thesis by simp
next
  case (SocketClosed i)
  then show ?thesis by simp
qed

lemma run_ping_job:
  "map_option job_stop (self_ping_job (run s cs)) = map_option job_stop (self_ping_job s)"
  unfolding run_def by (induction cs arbitrary: s) (simp_all add: exec_ping_job)

lemma init_ping_job:
  assumes "init env applications hosts io_loop extra_patterns k = Inr s"
  shows "self_ping_job s = (if 0 < k then Some (PeriodicCallback KeepAlive k) else None)"
    and "0 \<le> k"
  using assms by (auto simp add: init_def Let_def split: if_splits sum.splits)

text \<open>
  C5. For a server that the constructor returned for the interval \<open>k\<close>: with \<open>k = 0\<close>
  there is no ping job, \<open>start\<close> and \<open>stop\<close> leave it at \<open>None\<close>, and no sequence of
  calls ever makes one. With \<open>k > 0\<close> the ping job is a periodic callback of
  \<open>keep_alive\<close> with period \<open>k\<close> that does not run yet; \<open>start\<close> makes it run, \<open>stop\<close>
  after that makes it not run, and after every sequence of calls it is still that job,
  running or not. The constructor returns for no other \<open>k\<close>.
\<close>

theorem keep_alive_job:
  assumes "init env applications hosts io_loop extra_patterns k = Inr s"
  shows "(k = 0 \<longrightarrow>
            self_ping_job s = None \<and>
            self_ping_job (start s i) = None \<and>
            self_ping_job (stop s) = None \<and>
            (\<forall>cs. self_ping_job (run s cs) = None)) \<and>
         (0 < k \<longrightarrow>
            self_ping_job s =
              Some \<lparr>callback = KeepAlive, callback_time = k, running = False\<rparr> \<and>
            self_ping_job (start s i) =
              Some \<lparr>callback = KeepAlive, callback_time = k, running = True\<rparr> \<and>
            self_ping_job (stop (start s i)) =
              Some \<lparr>callback = KeepAlive, callback_time = k, running = False\<rparr> \<and>
            (\<forall>cs. \<exists>b. self_ping_job (run s cs) =
                      Some \<lparr>callback = KeepAlive, callback_time = k, running = b\<rparr>)) \<and>
         (k = 0 \<or> 0 < k)"
proof (intro conjI impI allI)
  note p = init_ping_job(1) [OF assms]
  {
    assume k: "k = 0"
    with p show n: "self_ping_job s = None" by simp
    then show "self_ping_job (start s i) = None" by (simp add: start_def Let_def)
    from n show "self_ping_job (stop s) = None" by (simp add: stop_def)
    fix cs
    have "map_option job_stop (self_ping_job (run s cs)) = map_option job_stop (self_ping_job s)"
      by (rule run_ping_job)
    with n show "self_ping_job (run s cs) = None" by simp
  }
  {
    assume k: "0 < k"
    with p show j: "self_ping_job s =
        Some \<lparr>callback = KeepAlive, callback_time = k, running = False\<rparr>"
      by (simp add: PeriodicCallback_def)
    then show "self_ping_job (start s i) =
        Some \<lparr>callback = KeepAlive, callback_time = k, running = True\<rparr>"
      by (simp add: start_def Let_def job_start_def)
    from j show "self_ping_job (stop (start s i)) =
        Some \<lparr>callback = KeepAlive, callback_time = k, running = False\<rparr>"
      by (simp add: stop_def start_def Let_def job_start_def job_stop_def)
    fix cs
    have "map_option job_stop (self_ping_job (run s cs)) = map_option job_stop (self_ping_job s)"
      by (rule run_ping_job)
    with j obtain x where x: "self_ping_job (run s cs) = Some x"
      and y: "job_stop x = \<lparr>callback = KeepAlive, callback_time = k, running = False\<rparr>"
      by (auto simp add: job_stop_def)
    from y have "x = \<lparr>callback = KeepAlive, callback_time = k, running = running x\<rparr>"
      by (cases x) (simp add: job_stop_def)
    with x show "\<exists>b. self_ping_job (run s cs) =
        Some \<lparr>callback = KeepAlive, callback_time = k, running = b\<rparr>"
      by (intro exI [of _ "running x"]) simp
  }
  from init_ping_job(2) [OF assms] show "k = 0 \<or> 0 < k" by auto
qed

theorem keep_alive_job_witness:
  "init demo_env [(''/app'', ''app'')] [''good.example''] None None 0 = Inr (demo_server 0) \<and>
   self_ping_job (demo_server 0) = None \<and>
   self_ping_job (start (demo_server 0) False) = None \<and>
   self_ping_job (stop (demo_server 0)) = None \<and>
   self_ping_job (run (demo_server 0) [Start False, KeepAliveJob, Stop]) = None \<and>
   init demo_env [(''/app'', ''app'')] [''good.example''] None None 37000 =
     Inr (demo_server 37000) \<and>
   self_ping_job (demo_server 37000) =
     Some \<lparr>callback = KeepAlive, callback_time = 37000, running = False\<rparr> \<and>
   self_ping_job (start (demo_server 37000) False) =
     Some \<lparr>callback = KeepAlive, callback_time = 37000, running = True\<rparr> \<and>
   self_ping_job (stop (start (demo_server 37000) False)) =
     Some \<lparr>callback = KeepAlive, callback_time = 37000, running = False\<rparr>"
proof -
  have a: "init demo_env [(''/app'', ''app'')] [''good.example''] None None 0 =
      Inr (demo_server 0)"
    by (rule init_demo) simp
  have b: "init demo_env [(''/app'', ''app'')] [''good.example''] None None 37000 =
      Inr (demo_server 37000)"
    by (rule init_demo) simp
  have q: "(0::int) = 0" by simp
  have p: "(0::int) < 37000" by simp
  have z: "self_ping_job (demo_server 0) = None \<and>
            self_ping_job (start (demo_server 0) False) = None \<and>
            self_ping_job (stop (demo_server 0)) = None \<and>
            (\<forall>cs. self_ping_job (run (demo_server 0) cs) = None)"
    by (rule keep_alive_job [OF a, THEN conjunct1, rule_format, OF q])
  have n: "self_ping_job (demo_server 37000) =
              Some \<lparr>callback = KeepAlive, callback_time = 37000, running = False\<rparr> \<and>
            self_ping_job (start (demo_server 37000) False) =
              Some \<lparr>callback = KeepAlive, callback_time = 37000, running = True\<rparr> \<and>
            self_ping_job (stop (start (demo_server 37000) False)) =
              Some \<lparr>callback = KeepAlive, callback_time = 37000, running = False\<rparr> \<and>
            (\<forall>cs. \<exists>b. self_ping_job (run (demo_server 37000) cs) =
                      Some \<lparr>callback = KeepAlive, callback_time = 37000, running = b\<rparr>)"
    by (rule keep_alive_job [OF b, THEN conjunct2, THEN conjunct1, rule_format, OF p])
  from z have z1: "self_ping_job (demo_server 0) = None"
    by (elim conjE)
  from z have z2: "self_ping_job (start (demo_server 0) False) = None"
    by (elim conjE)
  from z have z3: "self_ping_job (stop (demo_server 0)) = None"
    by (elim conjE)
  from z have z4: "\<forall>cs. self_ping_job (run (demo_server 0) cs) = None"
    by (elim conjE)
  from n have n1: "self_ping_job (demo_server 37000) =
     Some \<lparr>callback = KeepAlive, callback_time = 37000, running = False\<rparr>"
    by (elim conjE)
  from n have n2: "self_ping_job (start (demo_server 37000) False) =
     Some \<lparr>callback = KeepAlive, callback_time = 37000, running = True\<rparr>"
    by (elim conjE)
  from n have n3: "self_ping_job (stop (start (demo_server 37000) False)) =
     Some \<lparr>callback = KeepAlive, callback_time = 37000, running = False\<rparr>"
    by (elim conjE)
  from a z1 z2 z3 z4 [rule_format, of "[Start False, KeepAliveJob, Stop]"] b n1 n2 n3
  show ?thesis by (intro conjI)
qed

subsection \<open>The check of the keep-alive interval\<close>

lemma relative_patterns_error:
  "relative_patterns pats keys = Inl e \<Longrightarrow> e = RuntimeError ''Couldn't find websocket path''"
  by (induction keys arbitrary: e) (auto split: option.splits sum.splits)

text \<open>
  C6. A negative interval makes the constructor raise
  \<open>ValueError("keep_alive_milliseconds must be >= 0")\<close>, whatever the other arguments
  are, also where the routes have no websocket path: the check comes before the routes
  are built, and no object with jobs, an executor or a set of connections results.
  An interval of zero or more passes the check: the constructor then fails only where
  the websocket path is missing, with \<open>RuntimeError\<close>, and otherwise returns an object,
  for zero one without a ping job.
\<close>

theorem negative_keep_alive:
  "(k < 0 \<longrightarrow>
      init env applications hosts io_loop extra_patterns k =
        Inl (ValueError ''keep_alive_milliseconds must be >= 0'')) \<and>
   (0 \<le> k \<longrightarrow>
      (\<forall>e. init env applications hosts io_loop extra_patterns k = Inl e \<longrightarrow>
         e = RuntimeError ''Couldn't find websocket path'' \<and>
         relative_patterns (per_app_patterns env) (map fst applications) = Inl e) \<and>
      (\<forall>rel. relative_patterns (per_app_patterns env) (map fst applications) = Inr rel \<longrightarrow>
         (\<exists>s. init env applications hosts io_loop extra_patterns k = Inr s \<and>
              self_clients s = [] \<and> self_executor s = ProcessPoolExecutor 4 \<and>
              self_ping_job s = (if k = 0 then None else Some (PeriodicCallback KeepAlive k)))))"
proof (intro conjI impI allI)
  assume "k < 0"
  then show "init env applications hosts io_loop extra_patterns k =
        Inl (ValueError ''keep_alive_milliseconds must be >= 0'')"
    by (simp add: init_def Let_def)
next
  fix e
  assume k: "0 \<le> k" and i: "init env applications hosts io_loop extra_patterns k = Inl e"
  from k i show r: "relative_patterns (per_app_patterns env) (map fst applications) = Inl e"
    by (auto simp add: init_def Let_def split: sum.splits)
  from r show "e = RuntimeError ''Couldn't find websocket path''"
    by (rule relative_patterns_error)
next
  fix rel
  assume k: "0 \<le> k"
    and r: "relative_patterns (per_app_patterns env) (map fst applications) = Inr rel"
  then show "\<exists>s. init env applications hosts io_loop extra_patterns k = Inr s \<and>
              self_clients s = [] \<and> self_executor s = ProcessPoolExecutor 4 \<and>
              self_ping_job s = (if k = 0 then None else Some (PeriodicCallback KeepAlive k))"
    by (auto simp add: init_def Let_def)
qed

theorem negative_keep_alive_witness:
  "init demo_env [(''/app'', ''app'')] [''good.example''] None None (- 1) =
     Inl (ValueError ''keep_alive_milliseconds must be >= 0'') \<and>
   init (demo_env\<lparr>per_app_patterns := [(''/?'', ''DocHandler'')]\<rparr>)
        [(''/app'', ''app'')] [''good.example''] None None (- 1) =
     Inl (ValueError ''keep_alive_milliseconds must be >= 0'') \<and>
   init (demo_env\<lparr>per_app_patterns := [(''/?'', ''DocHandler'')]\<rparr>)
        [(''/app'', ''app'')] [''good.example''] None None 0 =
     Inl (RuntimeError ''Couldn't find websocket path'') \<and>
   init demo_env [(''/app'', ''app'')] [''good.example''] None None 0 \<noteq>
     Inl (ValueError ''keep_alive_milliseconds must be >= 0'') \<and>
   (\<exists>s. init demo_env [(''/app'', ''app'')] [''good.example''] None None 0 = Inr s \<and>
        self_clients s = [] \<and> self_executor s = ProcessPoolExecutor 4 \<and>
        self_ping_job s = None)"
proof -
  let ?bad = "demo_env\<lparr>per_app_patterns := [(''/?'', ''DocHandler'')]\<rparr>"
  have neg: "(- 1 :: int) < 0" by simp
  have nn: "(0 :: int) \<le> 0" by simp
  have 1: "init demo_env [(''/app'', ''app'')] [''good.example''] None None (- 1) =
     Inl (ValueError ''keep_alive_milliseconds must be >= 0'')"
    by (rule negative_keep_alive [THEN conjunct1, rule_format, OF neg])
  have 2: "init ?bad [(''/app'', ''app'')] [''good.example''] None None (- 1) =
     Inl (ValueError ''keep_alive_milliseconds must be >= 0'')"
    by (rule negative_keep_alive [THEN conjunct1, rule_format, OF neg])
  have i3: "init ?bad [(''/app'', ''app'')] [''good.example''] None None 0 =
     Inl (RuntimeError ''Couldn't find websocket path'')"
    by (simp add: init_def demo_env_def app_routes_def find_websocket_path_def endswith_def
        Let_def)
  have e: "\<forall>e. init demo_env [(''/app'', ''app'')] [''good.example''] None None 0 = Inl e \<longrightarrow>
         e = RuntimeError ''Couldn't find websocket path'' \<and>
         relative_patterns (per_app_patterns demo_env) (map fst [(''/app'', ''app'')]) = Inl e"
    by (rule negative_keep_alive [THEN conjunct2, rule_format, OF nn, THEN conjunct1])
  have 4: "init demo_env [(''/app'', ''app'')] [''good.example''] None None 0 \<noteq>
     Inl (ValueError ''keep_alive_milliseconds must be >= 0'')"
  proof
    assume "init demo_env [(''/app'', ''app'')] [''good.example''] None None 0 =
      Inl (ValueError ''keep_alive_milliseconds must be >= 0'')"
    from e [rule_format, OF this]
    have "ValueError ''keep_alive_milliseconds must be >= 0'' =
          RuntimeError ''Couldn't find websocket path''"
      by (rule conjunct1)
    then show False by simp
  qed
  have r: "relative_patterns (per_app_patterns demo_env) (map fst [(''/app'', ''app'')]) =
      Inr [(''/app/?'', ''DocHandler'',
            Some \<lparr>application_context = ''/app'', bokeh_websocket_path = ''/app/ws''\<rparr>),
           (''/app/ws'', ''WSHandler'',
            Some \<lparr>application_context = ''/app'', bokeh_websocket_path = ''/app/ws''\<rparr>)]"
    by (simp add: demo_env_def app_routes_def find_websocket_path_def endswith_def)
  have "\<exists>s. init demo_env [(''/app'', ''app'')] [''good.example''] None None 0 = Inr s \<and>
        self_clients s = [] \<and> self_executor s = ProcessPoolExecutor 4 \<and>
        self_ping_job s = (if (0::int) = 0 then None else Some (PeriodicCallback KeepAlive 0))"
    by (rule negative_keep_alive [THEN conjunct2, rule_format, OF nn, THEN conjunct2,
          rule_format, OF r])
  then have 5: "\<exists>s. init demo_env [(''/app'', ''app'')] [''good.example''] None None 0 = Inr s \<and>
        self_clients s = [] \<and> self_executor s = ProcessPoolExecutor 4 \<and>
        self_ping_job s = None"
    by (simp only: refl if_True)
  from 1 2 i3 4 5 show ?thesis by (intro conjI)
qed

subsection \<open>Shutting down more than once\<close>














subsection \<open>The keep-alive tick\<close>














end
